theory Spec2Isabelle
  imports Main
begin

section \<open>E-ARK test case decoding: the module testcases.py\<close>

subsection \<open>The lxml element tree the decoders read\<close>

text \<open>
  The decoders walk an lxml element tree. Iterating an lxml element yields all of its
  child nodes, comments and processing instructions included; the \<open>tag\<close> of a comment or
  of a processing instruction is a factory function, never a string, so a comparison of
  it with a tag name is false. An element has its attributes (unique keys), its
  \<open>text\<close> (None when the element has no text before its first child, as for an empty
  element) and its children in document order.
\<close>

datatype node_tag = Tag string | Comment | ProcessingInstruction

datatype element =
  Element (tag: node_tag) (attrib: "(string \<times> string) list")
    (elem_text: "string option") (children: "element list")

text \<open>\<open>ele.get(key)\<close>: the attribute value, None when the attribute is absent.\<close>

definition get :: "element \<Rightarrow> string \<Rightarrow> string option" where
  "get ele key = map_of (attrib ele) key"

subsection \<open>Python values and exceptions\<close>

text \<open>
  The raw values a field can hold: None, a boolean (the constructor default of
  \<open>testable\<close>) or a string. \<open>py_eq\<close> is Python's \<open>==\<close> on them: values of different
  types are never equal.
\<close>

datatype pyval = PyNone | PyBool bool | PyStr string

fun py_eq :: "pyval \<Rightarrow> pyval \<Rightarrow> bool" where
  "py_eq PyNone PyNone = True"
| "py_eq (PyBool a) (PyBool b) = (a = b)"
| "py_eq (PyStr s) (PyStr t) = (s = t)"
| "py_eq _ _ = False"

fun py_of_opt :: "string option \<Rightarrow> pyval" where
  "py_of_opt None = PyNone"
| "py_of_opt (Some s) = PyStr s"

datatype exn = XMLSyntaxError | AttributeError | TypeError

fun bind_exn :: "exn + 'a \<Rightarrow> ('a \<Rightarrow> exn + 'b) \<Rightarrow> exn + 'b" where
  "bind_exn (Inl e) f = Inl e"
| "bind_exn (Inr x) f = f x"

text \<open>\<open>s + v\<close> for a string \<open>s\<close>: only a string can be concatenated to a string.\<close>

fun concat_str :: "string \<Rightarrow> pyval \<Rightarrow> exn + string" where
  "concat_str s (PyStr t) = Inr (s @ t)"
| "concat_str s PyNone = Inl TypeError"
| "concat_str s (PyBool b) = Inl TypeError"

subsection \<open>The value classes\<close>

record CaseId =
  caseid_requirement_id :: "string option"
  caseid_specification :: "string option"
  caseid_version :: "string option"

record Error =
  level :: "string option"
  message :: "string option"

record Package =
  package_name :: "string option"
  package_path :: "string option"
  package_is_valid :: "string option"
  package_description :: "string option"

record Rule =
  rule_id :: "string option"
  rule_description :: "string option"
  rule_error :: "Error option"
  rule_packages :: "Package list"

text \<open>The private attributes of a \<open>TestCase\<close>; \<open>raw_testable\<close> is \<open>_testable\<close>.\<close>

record TestCase =
  raw_case_id :: "CaseId option"
  raw_testable :: pyval
  raw_references :: "string list"
  raw_text :: "string option"
  raw_rules :: "Rule list"

text \<open>
  \<open>TestCase.__init__(case_id, testable=True, references=None, text="", rules=None)\<close>.
  The constructor takes every argument; the \<open>default_\<close> constants are the values of the
  parameters a call leaves out.
\<close>

definition default_testable :: pyval where
  "default_testable = PyBool True"

definition default_references :: "string list option" where
  "default_references = None"

definition default_text :: "string option" where
  "default_text = Some ''''"

definition default_rules :: "Rule list option" where
  "default_rules = None"

definition TestCase_init ::
  "CaseId option \<Rightarrow> pyval \<Rightarrow> string list option \<Rightarrow> string option \<Rightarrow> Rule list option
    \<Rightarrow> TestCase" where
  "TestCase_init cid tst refs txt rls =
     \<lparr>raw_case_id = cid,
      raw_testable = tst,
      raw_references = (case refs of None \<Rightarrow> [] | Some r \<Rightarrow> r),
      raw_text = txt,
      raw_rules = (case rls of None \<Rightarrow> [] | Some r \<Rightarrow> r)\<rparr>"

text \<open>The read-only properties of \<open>TestCase\<close>.\<close>

definition case_id :: "TestCase \<Rightarrow> CaseId option" where
  "case_id tc = raw_case_id tc"

definition testable :: "TestCase \<Rightarrow> bool" where
  "testable tc = py_eq (raw_testable tc) (PyStr ''TRUE'')"

definition unknown :: "TestCase \<Rightarrow> bool" where
  "unknown tc = py_eq (raw_testable tc) (PyStr ''UNKNOWN'')"

definition references :: "TestCase \<Rightarrow> string list" where
  "references tc = raw_references tc"

definition requirement_text :: "TestCase \<Rightarrow> string option" where
  "requirement_text tc = raw_text tc"

definition rules :: "TestCase \<Rightarrow> Rule list" where
  "rules tc = raw_rules tc"

subsection \<open>Textual representation\<close>

text \<open>
  \<open>CaseId.__str__\<close>: the three fields are concatenated as they are, so a field that is
  None raises TypeError.
\<close>

definition CaseId_str :: "CaseId \<Rightarrow> exn + string" where
  "CaseId_str c =
     bind_exn (concat_str ''req_id:'' (py_of_opt (caseid_requirement_id c))) (\<lambda>s1.
     bind_exn (concat_str s1 (PyStr '', specification:'')) (\<lambda>s2.
     bind_exn (concat_str s2 (py_of_opt (caseid_specification c))) (\<lambda>s3.
     bind_exn (concat_str s3 (PyStr '', version:'')) (\<lambda>s4.
     concat_str s4 (py_of_opt (caseid_version c))))))"

text \<open>\<open>str(self.case_id)\<close>: \<open>str(None)\<close> is \<open>"None"\<close>.\<close>

fun str_case_id :: "CaseId option \<Rightarrow> exn + string" where
  "str_case_id None = Inr ''None''"
| "str_case_id (Some c) = CaseId_str c"

text \<open>
  \<open>TestCase.__str__\<close>: the operands are added left to right; \<open>self.testable\<close> is the
  boolean the property returns.
\<close>

definition TestCase_str :: "TestCase \<Rightarrow> exn + string" where
  "TestCase_str tc =
     bind_exn (str_case_id (case_id tc)) (\<lambda>cs.
     bind_exn (concat_str ''case_id:'' (PyStr cs)) (\<lambda>s1.
     bind_exn (concat_str s1 (PyStr '', testable:'')) (\<lambda>s2.
     bind_exn (concat_str s2 (PyBool (testable tc))) (\<lambda>s3.
     bind_exn (concat_str s3 (PyStr '', requirement:'')) (\<lambda>s4.
     concat_str s4 (py_of_opt (requirement_text tc)))))))"

subsection \<open>The element decoders\<close>

definition CaseId_from_element :: "element \<Rightarrow> CaseId" where
  "CaseId_from_element case_id_ele =
     \<lparr>caseid_requirement_id = get case_id_ele ''requirementId'',
      caseid_specification = get case_id_ele ''specification'',
      caseid_version = get case_id_ele ''version''\<rparr>"

text \<open>\<open>Error.from_element\<close>: the loop keeps the text of the last \<open>message\<close> child.\<close>

definition error_step :: "string option \<Rightarrow> element \<Rightarrow> string option" where
  "error_step msg child = (if tag child = Tag ''message'' then elem_text child else msg)"

definition Error_from_element :: "element \<Rightarrow> Error" where
  "Error_from_element error_ele =
     \<lparr>level = get error_ele ''level'',
      message = foldl error_step (Some '''') (children error_ele)\<rparr>"

text \<open>\<open>Package.from_element\<close>: the loop state is \<open>(path, description)\<close>.\<close>

definition package_step ::
  "string option \<times> string option \<Rightarrow> element \<Rightarrow> string option \<times> string option" where
  "package_step st child =
     (case st of (path, description) \<Rightarrow>
        if tag child = Tag ''path'' then (elem_text child, description)
        else if tag child = Tag ''description'' then (path, elem_text child)
        else (path, description))"

definition Package_from_element :: "element \<Rightarrow> Package" where
  "Package_from_element package_ele =
     (case foldl package_step (Some '''', Some '''') (children package_ele) of
        (path, description) \<Rightarrow>
          \<lparr>package_name = get package_ele ''name'',
           package_path = path,
           package_is_valid = get package_ele ''isValid'',
           package_description = description\<rparr>)"

text \<open>\<open>Rule._parse_package_list\<close>: only the children tagged \<open>package\<close> are appended.\<close>

definition package_list_step :: "Package list \<Rightarrow> element \<Rightarrow> Package list" where
  "package_list_step packages child =
     (if tag child = Tag ''package'' then packages @ [Package_from_element child]
      else packages)"

definition parse_package_list :: "element \<Rightarrow> Package list" where
  "parse_package_list packages_ele = foldl package_list_step [] (children packages_ele)"

text \<open>\<open>Rule.from_element\<close>: the loop state is \<open>(description, error, packages)\<close>.\<close>

definition rule_step ::
  "string option \<times> Error option \<times> Package list \<Rightarrow> element
    \<Rightarrow> string option \<times> Error option \<times> Package list" where
  "rule_step st child =
     (case st of (description, error, packages) \<Rightarrow>
        if tag child = Tag ''description'' then (elem_text child, error, packages)
        else if tag child = Tag ''error'' then
          (description, Some (Error_from_element child), packages)
        else if tag child = Tag ''corpusPackages'' then
          (description, error, parse_package_list child)
        else (description, error, packages))"

definition Rule_from_element :: "element \<Rightarrow> Rule" where
  "Rule_from_element rule_ele =
     (case foldl rule_step (Some '''', None, []) (children rule_ele) of
        (description, error, packages) \<Rightarrow>
          \<lparr>rule_id = get rule_ele ''id'',
           rule_description = description,
           rule_error = error,
           rule_packages = packages\<rparr>)"

text \<open>
  The schema object: \<open>schema.validate(ele)\<close> returns whether the element conforms; it
  raises nothing on a document that does not. The schema file itself is a resource
  outside the module, so the schema is a parameter of the decoders.
\<close>

record XMLSchema =
  validate :: "element \<Rightarrow> bool"

text \<open>
  \<open>TestCase.from_element\<close>: the inner loop over a \<open>rules\<close> child appends the decoding of
  every child of it; the loop state of the outer loop is \<open>(req_id, text, rules)\<close>.
\<close>

definition rules_step :: "Rule list \<Rightarrow> element \<Rightarrow> Rule list" where
  "rules_step rls rule_ele = rls @ [Rule_from_element rule_ele]"

definition case_step ::
  "CaseId option \<times> string option \<times> Rule list \<Rightarrow> element
    \<Rightarrow> CaseId option \<times> string option \<times> Rule list" where
  "case_step st child =
     (case st of (req_id, txt, rls) \<Rightarrow>
        if tag child = Tag ''id'' then (Some (CaseId_from_element child), txt, rls)
        else if tag child = Tag ''requirementText'' then (req_id, elem_text child, rls)
        else if tag child = Tag ''rules'' then
          (req_id, txt, foldl rules_step rls (children child))
        else (req_id, txt, rls))"

definition from_element :: "XMLSchema \<Rightarrow> element \<Rightarrow> exn + TestCase" where
  "from_element schema case_ele =
     (let valid = validate schema case_ele;
          tst = get case_ele ''testable''
      in case foldl case_step (None, Some '''', []) (children case_ele) of
           (req_id, txt, rls) \<Rightarrow>
             Inr (TestCase_init req_id (py_of_opt tst) default_references txt (Some rls)))"

subsection \<open>The entry points for strings and files\<close>

text \<open>
  What the lxml parsing functions return: \<open>ET.fromstring\<close> returns the root element
  itself, \<open>ET.parse\<close> returns an element tree that wraps the root. Only an element tree
  has a \<open>getroot\<close> method. The XML parser is a parameter: it gives the root element of a
  well-formed source and an exception otherwise.
\<close>

datatype etree_obj = ElementObj element | ElementTreeObj element

definition ET_fromstring :: "(string \<Rightarrow> exn + element) \<Rightarrow> string \<Rightarrow> exn + etree_obj" where
  "ET_fromstring parser xml = bind_exn (parser xml) (\<lambda>root. Inr (ElementObj root))"

definition ET_parse :: "('f \<Rightarrow> exn + element) \<Rightarrow> 'f \<Rightarrow> exn + etree_obj" where
  "ET_parse parser xml_file = bind_exn (parser xml_file) (\<lambda>root. Inr (ElementTreeObj root))"

fun getroot :: "etree_obj \<Rightarrow> exn + element" where
  "getroot (ElementTreeObj root) = Inr root"
| "getroot (ElementObj e) = Inl AttributeError"

definition from_xml_string ::
  "(string \<Rightarrow> exn + element) \<Rightarrow> string \<Rightarrow> XMLSchema \<Rightarrow> exn + TestCase" where
  "from_xml_string parser xml schema =
     bind_exn (ET_fromstring parser xml) (\<lambda>tree.
     bind_exn (getroot tree) (\<lambda>root. from_element schema root))"

definition from_xml_file ::
  "('f \<Rightarrow> exn + element) \<Rightarrow> 'f \<Rightarrow> XMLSchema \<Rightarrow> exn + TestCase" where
  "from_xml_file parser xml_file schema =
     bind_exn (ET_parse parser xml_file) (\<lambda>tree.
     bind_exn (getroot tree) (\<lambda>root. from_element schema root))"

section \<open>Schemas, parsers and documents used below\<close>

text \<open>A schema that accepts every document.\<close>

definition accept_all :: XMLSchema where
  "accept_all = \<lparr>validate = (\<lambda>ele. True)\<rparr>"

text \<open>
  Modelled from the spec: the schema file testCase.xsd is not among the sources. Of the
  schema the spec says that a document with an unexpected root tag, or without the
  required \<open>id\<close> element, violates it; this schema checks these two conditions and
  nothing else.
\<close>

definition required_parts_schema :: XMLSchema where
  "required_parts_schema =
     \<lparr>validate = (\<lambda>ele. tag ele = Tag ''testCase'' \<and>
        list_ex (\<lambda>c. tag c = Tag ''id'') (children ele))\<rparr>"

text \<open>A test case with an identifier and nothing else, as text and as parsed.\<close>

definition sample_xml :: string where
  \<open>sample_xml = ''<testCase testable="TRUE"><id requirementId="CSIP1"/></testCase>''\<close>

definition sample_id_ele :: element where
  "sample_id_ele = Element (Tag ''id'') [(''requirementId'', ''CSIP1'')] None []"

definition sample_doc :: element where
  "sample_doc = Element (Tag ''testCase'') [(''testable'', ''TRUE'')] None [sample_id_ele]"

definition sample_parser :: "string \<Rightarrow> exn + element" where
  "sample_parser xml = (if xml = sample_xml then Inr sample_doc else Inl XMLSyntaxError)"

definition sample_case_id :: CaseId where
  "sample_case_id =
     \<lparr>caseid_requirement_id = Some ''CSIP1'',
      caseid_specification = None,
      caseid_version = None\<rparr>"

definition sample_testcase :: TestCase where
  "sample_testcase =
     TestCase_init (Some sample_case_id) (PyStr ''TRUE'') None (Some '''') (Some [])"

text \<open>A case identifier with all three fields, for the textual representation.\<close>

definition full_case_id :: CaseId where
  "full_case_id =
     \<lparr>caseid_requirement_id = Some ''CSIP1'',
      caseid_specification = Some ''CSIP'',
      caseid_version = Some ''2.0''\<rparr>"

text \<open>
  \<open><testCase testable="TRUE"><requirementText>text</requirementText></testCase>\<close>: the
  \<open>id\<close> element is missing.
\<close>

definition missing_id_doc :: element where
  "missing_id_doc =
     Element (Tag ''testCase'') [(''testable'', ''TRUE'')] None
       [Element (Tag ''requirementText'') [] (Some ''text'') []]"

text \<open>The test case of \<open>sample_doc\<close> with an empty \<open>requirementText\<close> element added.\<close>

definition empty_text_doc :: element where
  "empty_text_doc =
     Element (Tag ''testCase'') [(''testable'', ''TRUE'')] None
       [sample_id_ele, Element (Tag ''requirementText'') [] None []]"

text \<open>
  What \<open>Rule.from_element\<close> makes of a node without attributes and children, and of
  \<open><rule id="i"/>\<close>.
\<close>

definition empty_rule :: Rule where
  "empty_rule =
     \<lparr>rule_id = None, rule_description = Some '''', rule_error = None, rule_packages = []\<rparr>"

definition rule_R :: "string \<Rightarrow> Rule" where
  "rule_R i =
     \<lparr>rule_id = Some i, rule_description = Some '''', rule_error = None, rule_packages = []\<rparr>"

text \<open>\<open><rules><rule id="R1"/><!-- second rule --><rule id="R2"/></rules>\<close>\<close>

definition two_rules_ele :: element where
  "two_rules_ele =
     Element (Tag ''rules'') [] None
       [Element (Tag ''rule'') [(''id'', ''R1'')] None [],
        Element Comment [] (Some '' second rule '') [],
        Element (Tag ''rule'') [(''id'', ''R2'')] None []]"

definition two_rules_doc :: element where
  "two_rules_doc =
     Element (Tag ''testCase'') [(''testable'', ''TRUE'')] None [sample_id_ele, two_rules_ele]"

text \<open>\<open><rules><note>draft</note><rule id="R1"/></rules>\<close>\<close>

definition noted_rules_ele :: element where
  "noted_rules_ele =
     Element (Tag ''rules'') [] None
       [Element (Tag ''note'') [] (Some ''draft'') [],
        Element (Tag ''rule'') [(''id'', ''R1'')] None []]"

definition noted_rules_doc :: element where
  "noted_rules_doc =
     Element (Tag ''testCase'') [(''testable'', ''TRUE'')] None [sample_id_ele, noted_rules_ele]"

text \<open>\<open><rules><!-- no rules yet --></rules>\<close>\<close>

definition comment_only_rules_ele :: element where
  "comment_only_rules_ele =
     Element (Tag ''rules'') [] None [Element Comment [] (Some '' no rules yet '') []]"

definition comment_only_rules_doc :: element where
  "comment_only_rules_doc =
     Element (Tag ''testCase'') [(''testable'', ''UNKNOWN'')] None
       [sample_id_ele, comment_only_rules_ele]"

section \<open>Properties\<close>

subsection \<open>Testability classification\<close>

lemma py_eq_PyStr: "py_eq v (PyStr s) \<longleftrightarrow> v = PyStr s"
  by (cases v) auto

text \<open>
  C3: for every TestCase, whatever raw value its testable attribute holds, the
  \<open>testable\<close> accessor is true exactly when the raw value is the string \<open>"TRUE"\<close>, the
  \<open>unknown\<close> accessor is true exactly when it is the string \<open>"UNKNOWN"\<close>, and for
  \<open>"FALSE"\<close> and any other raw value both accessors are false.
\<close>

theorem testable_unknown_classification:
  "(testable tc \<longleftrightarrow> raw_testable tc = PyStr ''TRUE'') \<and>
   (unknown tc \<longleftrightarrow> raw_testable tc = PyStr ''UNKNOWN'') \<and>
   (raw_testable tc \<noteq> PyStr ''TRUE'' \<and> raw_testable tc \<noteq> PyStr ''UNKNOWN''
      \<longrightarrow> \<not> testable tc \<and> \<not> unknown tc)"
  by (simp add: testable_def unknown_def py_eq_PyStr)

theorem testable_unknown_classification_witness:
  "raw_testable (TestCase_init None (PyStr ''FALSE'') None (Some '''') None) \<noteq> PyStr ''TRUE'' \<and>
   raw_testable (TestCase_init None (PyStr ''FALSE'') None (Some '''') None) \<noteq> PyStr ''UNKNOWN'' \<and>
   \<not> testable (TestCase_init None (PyStr ''FALSE'') None (Some '''') None) \<and>
   \<not> unknown (TestCase_init None (PyStr ''FALSE'') None (Some '''') None)"
  using testable_unknown_classification
    [of "TestCase_init None (PyStr ''FALSE'') None (Some '''') None"]
  by (simp add: TestCase_init_def)

text \<open>
  C10: a TestCase built by the constructor with the default \<open>testable=True\<close> (the
  boolean) reports neither testable nor unknown: the boolean equals neither string.
\<close>

theorem default_testable_is_neither:
  "default_testable = PyBool True \<and>
   testable (TestCase_init cid default_testable refs txt rls) = False \<and>
   unknown (TestCase_init cid default_testable refs txt rls) = False"
  by (simp add: default_testable_def TestCase_init_def testable_def unknown_def)

subsection \<open>Textual representation\<close>

text \<open>The only exception the string conversions raise is TypeError.\<close>

lemma CaseId_str_error: "CaseId_str c = Inl e \<Longrightarrow> e = TypeError"
  by (cases "caseid_requirement_id c"; cases "caseid_specification c"; cases "caseid_version c")
    (auto simp: CaseId_str_def)

lemma str_case_id_error: "str_case_id cid = Inl e \<Longrightarrow> e = TypeError"
  by (cases cid) (auto dest: CaseId_str_error)

text \<open>
  \<open>TestCase.__str__\<close> returns for no TestCase: if the conversion of the case identifier
  does not raise, the concatenation of the boolean \<open>self.testable\<close> to a string does.
\<close>

lemma TestCase_str_always_raises: "TestCase_str tc = Inl TypeError"
proof (cases "str_case_id (case_id tc)")
  case (Inl e)
  then show ?thesis
    using str_case_id_error [OF Inl] by (simp add: TestCase_str_def)
next
  case (Inr cs)
  then show ?thesis by (simp add: TestCase_str_def)
qed

text \<open>
  C9 (the code differs): the claim is that \<open>__str__\<close> succeeds for every TestCase and
  returns a one-line summary. On the code, the conversion of a TestCase with a complete
  case identifier, the testable value \<open>"TRUE"\<close> and a requirement text raises TypeError,
  although the conversion of its case identifier succeeds.
\<close>

theorem TestCase_str_raises_TypeError:
  "CaseId_str full_case_id = Inr ''req_id:CSIP1, specification:CSIP, version:2.0'' \<and>
   TestCase_str (TestCase_init (Some full_case_id) (PyStr ''TRUE'') None (Some ''text'') None)
     = Inl TypeError"
  by (simp add: TestCase_str_def TestCase_init_def case_id_def testable_def full_case_id_def
      CaseId_str_def)

subsection \<open>The entry points\<close>

text \<open>\<open>from_element\<close> raises nothing, and its result does not depend on the schema.\<close>

lemma from_element_returns: "\<exists>tc. from_element schema case_ele = Inr tc"
  by (simp add: from_element_def split: prod.splits)

lemma from_element_ignores_schema:
  "from_element schema case_ele = from_element schema' case_ele"
  by (simp add: from_element_def)

text \<open>
  C1 (the code differs): the claim is that a document that does not conform to the
  schema makes \<open>from_element\<close> raise SchemaValidationError and return no TestCase. On the
  code, the document without the required \<open>id\<close> element is rejected by the schema's
  \<open>validate\<close>, and \<open>from_element\<close> returns a TestCase whose case identifier is None.
\<close>

theorem from_element_nonconforming_document:
  "\<not> validate required_parts_schema missing_id_doc \<and>
   from_element required_parts_schema missing_id_doc =
     Inr (TestCase_init None (PyStr ''TRUE'') None (Some ''text'') None)"
  by (simp add: required_parts_schema_def missing_id_doc_def from_element_def case_step_def
      get_def TestCase_init_def default_references_def)

text \<open>
  \<open>from_xml_string\<close> returns for no input: a well-formed string gives an element, which
  has no \<open>getroot\<close>. \<open>from_xml_file\<close> is \<open>from_element\<close> on the root of the parsed file.
\<close>

lemma from_xml_string_well_formed:
  "parser xml = Inr root \<Longrightarrow> from_xml_string parser xml schema = Inl AttributeError"
  by (simp add: from_xml_string_def ET_fromstring_def)

lemma from_xml_string_never_returns: "from_xml_string parser xml schema \<noteq> Inr tc"
  by (cases "parser xml") (simp_all add: from_xml_string_def ET_fromstring_def)

lemma from_xml_file_delegates:
  "parser xml_file = Inr root \<Longrightarrow>
     from_xml_file parser xml_file schema = from_element schema root"
  by (simp add: from_xml_file_def ET_parse_def)

lemma from_element_sample: "from_element accept_all sample_doc = Inr sample_testcase"
  by (simp add: from_element_def sample_doc_def sample_id_ele_def case_step_def
      CaseId_from_element_def get_def sample_testcase_def sample_case_id_def
      default_references_def)

lemma from_xml_file_sample:
  "from_xml_file sample_parser sample_xml accept_all = Inr sample_testcase"
  by (simp add: from_xml_file_def ET_parse_def sample_parser_def from_element_sample)

text \<open>
  C2 (the code differs): the claim is that \<open>from_xml_string\<close> returns the decoded TestCase
  for a well-formed string that conforms to the schema. On the code, the string
  \<open>sample_xml\<close> parses to a document the schema accepts, \<open>from_xml_string\<close> raises
  AttributeError on it, and \<open>from_xml_file\<close> decodes the same document.
\<close>

theorem from_xml_string_raises_AttributeError:
  "sample_parser sample_xml = Inr sample_doc \<and>
   validate accept_all sample_doc \<and>
   from_xml_string sample_parser sample_xml accept_all = Inl AttributeError \<and>
   from_xml_file sample_parser sample_xml accept_all = Inr sample_testcase"
proof -
  have "validate accept_all sample_doc"
    by (simp add: accept_all_def)
  then show ?thesis
    by (simp add: from_xml_string_def ET_fromstring_def sample_parser_def
        from_xml_file_sample)
qed

subsection \<open>The references of a decoded test case\<close>

lemma from_element_references:
  "from_element schema case_ele = Inr tc \<Longrightarrow> references tc = []"
  by (auto simp: from_element_def TestCase_init_def default_references_def references_def
      split: prod.splits)

lemma from_xml_file_references:
  "from_xml_file parser xml_file schema = Inr tc \<Longrightarrow> references tc = []"
  by (cases "parser xml_file")
    (auto simp: from_xml_file_def ET_parse_def dest: from_element_references)

text \<open>
  C8: every TestCase that \<open>from_element\<close> returns, and every TestCase that
  \<open>from_xml_file\<close> returns, has the empty list of references. (\<open>from_xml_string\<close>
  returns no TestCase at all, see \<open>from_xml_string_never_returns\<close>.)
\<close>

theorem decoded_references_empty:
  "(from_element schema case_ele = Inr tc \<longrightarrow> references tc = []) \<and>
   (from_xml_file parser xml_file schema = Inr tc' \<longrightarrow> references tc' = [])"
  by (auto dest: from_element_references from_xml_file_references)

theorem decoded_references_empty_witness:
  "from_element accept_all sample_doc = Inr sample_testcase \<and>
   from_xml_file sample_parser sample_xml accept_all = Inr sample_testcase \<and>
   references sample_testcase = []"
  using decoded_references_empty
    [of accept_all sample_doc sample_testcase sample_parser sample_xml sample_testcase]
  by (simp add: from_element_sample from_xml_file_sample)

subsection \<open>The decoding loops\<close>

text \<open>
  The loop of \<open>_parse_package_list\<close> decodes the children tagged \<open>package\<close>, in document
  order, and nothing else: a \<open>corpusPackages\<close> element with M such children gives M
  packages.
\<close>

lemma foldl_package_list_step:
  "foldl package_list_step packages cs =
     packages @ map Package_from_element (filter (\<lambda>c. tag c = Tag ''package'') cs)"
  by (induction cs arbitrary: packages) (simp_all add: package_list_step_def)

lemma parse_package_list_filter_map:
  "parse_package_list packages_ele =
     map Package_from_element (filter (\<lambda>c. tag c = Tag ''package'') (children packages_ele))"
  by (simp add: parse_package_list_def foldl_package_list_step)

lemma parse_package_list_length:
  "length (parse_package_list packages_ele) =
     length (filter (\<lambda>c. tag c = Tag ''package'') (children packages_ele))"
  by (simp add: parse_package_list_filter_map)

text \<open>
  The inner loop of \<open>TestCase.from_element\<close> decodes every child of a \<open>rules\<close> element,
  whatever its tag; the decoded rules are those of all children of all \<open>rules\<close>
  elements, in document order.
\<close>

lemma foldl_rules_step: "foldl rules_step rls cs = rls @ map Rule_from_element cs"
  by (induction cs arbitrary: rls) (simp_all add: rules_step_def)

lemma case_loop_rules:
  "snd (snd (foldl case_step st cs)) =
     snd (snd st) @ concat (map (\<lambda>c. map Rule_from_element (children c))
       (filter (\<lambda>c. tag c = Tag ''rules'') cs))"
  by (induction cs arbitrary: st)
    (auto simp: case_step_def foldl_rules_step split: prod.splits)

lemma from_element_rules:
  "from_element schema case_ele = Inr tc \<Longrightarrow>
     rules tc = concat (map (\<lambda>c. map Rule_from_element (children c))
       (filter (\<lambda>c. tag c = Tag ''rules'') (children case_ele)))"
  using case_loop_rules [of "(None, Some '''', [])" "children case_ele"]
  by (auto simp: from_element_def TestCase_init_def rules_def split: prod.splits)

text \<open>A rule element without a child tagged \<open>error\<close> decodes to a rule whose error is None.\<close>

lemma rule_loop_error:
  "\<not> list_ex (\<lambda>c. tag c = Tag ''error'') cs \<Longrightarrow>
     fst (snd (foldl rule_step st cs)) = fst (snd st)"
  by (induction cs arbitrary: st) (auto simp: rule_step_def split: prod.splits)

lemma Rule_without_error_child:
  "\<not> list_ex (\<lambda>c. tag c = Tag ''error'') (children rule_ele) \<Longrightarrow>
     rule_error (Rule_from_element rule_ele) = None"
  using rule_loop_error [of "children rule_ele" "(Some '''', None, [])"]
  by (auto simp: Rule_from_element_def split: prod.splits)

text \<open>
  The requirement text after the outer loop: the initial text when no child is tagged
  \<open>requirementText\<close>, the text of the last such child otherwise.
\<close>

lemma case_loop_text:
  "fst (snd (foldl case_step st cs)) =
     (if filter (\<lambda>c. tag c = Tag ''requirementText'') cs = [] then fst (snd st)
      else elem_text (last (filter (\<lambda>c. tag c = Tag ''requirementText'') cs)))"
  by (induction cs arbitrary: st) (auto simp: case_step_def split: prod.splits)

lemma from_element_text:
  "from_element schema case_ele = Inr tc \<Longrightarrow>
     requirement_text tc =
       (if filter (\<lambda>c. tag c = Tag ''requirementText'') (children case_ele) = []
        then Some ''''
        else elem_text
          (last (filter (\<lambda>c. tag c = Tag ''requirementText'') (children case_ele))))"
  using case_loop_text [of "(None, Some '''', [])" "children case_ele"]
  by (auto simp: from_element_def TestCase_init_def requirement_text_def split: prod.splits)

subsection \<open>The rules of a decoded test case\<close>

text \<open>
  C4 (the code differs): the claim is that a \<open>rules\<close> element with N children tagged
  \<open>rule\<close> decodes to N rules in document order. On the code, the \<open>rules\<close> element with
  two \<open>rule\<close> children and a comment between them decodes to three rules, the second
  decoded from the comment.
\<close>

theorem rules_length_counts_comment:
  "length (filter (\<lambda>c. tag c = Tag ''rule'') (children two_rules_ele)) = 2 \<and>
   from_element schema two_rules_doc =
     Inr (TestCase_init (Some sample_case_id) (PyStr ''TRUE'') None (Some '''')
       (Some [rule_R ''R1'', empty_rule, rule_R ''R2'']))"
  by (simp add: two_rules_ele_def two_rules_doc_def sample_id_ele_def sample_case_id_def
      from_element_def case_step_def rules_step_def Rule_from_element_def
      CaseId_from_element_def get_def empty_rule_def rule_R_def default_references_def)

text \<open>
  C5 (the code differs): the claim is that the children of \<open>rules\<close> with a tag other than
  \<open>rule\<close> are ignored. On the code, the \<open>note\<close> child of the \<open>rules\<close> element is decoded
  as a rule and is the first entry of the rule sequence.
\<close>

theorem non_rule_child_is_decoded:
  "map tag (children noted_rules_ele) = [Tag ''note'', Tag ''rule''] \<and>
   from_element schema noted_rules_doc =
     Inr (TestCase_init (Some sample_case_id) (PyStr ''TRUE'') None (Some '''')
       (Some [empty_rule, rule_R ''R1'']))"
  by (simp add: noted_rules_ele_def noted_rules_doc_def sample_id_ele_def sample_case_id_def
      from_element_def case_step_def rules_step_def Rule_from_element_def
      CaseId_from_element_def get_def empty_rule_def rule_R_def default_references_def)

text \<open>
  C6 (the code differs): the claim is that a \<open>rules\<close> element with no \<open>rule\<close> child
  decodes to the empty rule sequence. On the code, the \<open>rules\<close> element that holds only
  a comment has no child tagged \<open>rule\<close> and decodes to a sequence of one rule.
\<close>

theorem no_rule_children_nonempty_rules:
  "filter (\<lambda>c. tag c = Tag ''rule'') (children comment_only_rules_ele) = [] \<and>
   from_element schema comment_only_rules_doc =
     Inr (TestCase_init (Some sample_case_id) (PyStr ''UNKNOWN'') None (Some '''')
       (Some [empty_rule]))"
  by (simp add: comment_only_rules_ele_def comment_only_rules_doc_def sample_id_ele_def
      sample_case_id_def from_element_def case_step_def rules_step_def
      Rule_from_element_def CaseId_from_element_def get_def empty_rule_def
      default_references_def)

subsection \<open>The requirement text of a decoded test case\<close>

text \<open>
  C7, as stated, fails: the document with an empty \<open>requirementText\<close> element decodes
  to a TestCase whose requirement text is None, not the empty string.
\<close>

theorem empty_requirementText_counterexample:
  "from_element accept_all empty_text_doc =
     Inr (TestCase_init (Some sample_case_id) (PyStr ''TRUE'') None None (Some [])) \<and>
   requirement_text (TestCase_init (Some sample_case_id) (PyStr ''TRUE'') None None (Some []))
     \<noteq> Some ''''"
  by (simp add: empty_text_doc_def sample_id_ele_def sample_case_id_def from_element_def
      case_step_def CaseId_from_element_def get_def default_references_def
      requirement_text_def TestCase_init_def)

text \<open>
  C7, amended: for every document without a \<open>requirementText\<close> child the decoded
  requirement text is the empty string; for every document with such children it is
  the text of the last of them exactly as the element holds it, which is None, not the
  empty string, for an empty element.
\<close>

theorem requirement_text_decoded:
  assumes "from_element schema case_ele = Inr tc"
  shows
    "(filter (\<lambda>c. tag c = Tag ''requirementText'') (children case_ele) = []
        \<longrightarrow> requirement_text tc = Some '''') \<and>
     (filter (\<lambda>c. tag c = Tag ''requirementText'') (children case_ele) \<noteq> []
        \<longrightarrow> requirement_text tc =
          elem_text (last (filter (\<lambda>c. tag c = Tag ''requirementText'') (children case_ele))))"
  using from_element_text [OF assms] by simp

theorem requirement_text_decoded_witness:
  "from_element accept_all sample_doc = Inr sample_testcase \<and>
   filter (\<lambda>c. tag c = Tag ''requirementText'') (children sample_doc) = [] \<and>
   requirement_text sample_testcase = Some '''' \<and>
   from_element accept_all missing_id_doc =
     Inr (TestCase_init None (PyStr ''TRUE'') None (Some ''text'') (Some [])) \<and>
   filter (\<lambda>c. tag c = Tag ''requirementText'') (children missing_id_doc) \<noteq> [] \<and>
   requirement_text (TestCase_init None (PyStr ''TRUE'') None (Some ''text'') (Some [])) =
     Some ''text''"
proof -
  have a: "from_element accept_all sample_doc = Inr sample_testcase"
    by (rule from_element_sample)
  have b: "from_element accept_all missing_id_doc =
     Inr (TestCase_init None (PyStr ''TRUE'') None (Some ''text'') (Some []))"
    by (simp add: missing_id_doc_def from_element_def case_step_def get_def
        default_references_def)
  show ?thesis
    using requirement_text_decoded [OF a] requirement_text_decoded [OF b] a b
    by (simp add: sample_doc_def sample_id_ele_def missing_id_doc_def)
qed

end
